theory Spec2Isabelle
  imports Main "HOL-Library.Sublist"
begin

section \<open>Values exchanged with the outside world\<close>

text \<open>
  Request bodies, token payloads and PDP replies are JSON documents that Python reads into
  \<^verbatim>\<open>None\<close>, \<^verbatim>\<open>bool\<close>, \<^verbatim>\<open>int\<close>, \<^verbatim>\<open>str\<close>, \<^verbatim>\<open>list\<close> and \<^verbatim>\<open>dict\<close> values.
  A dict is an association list read with \<open>map_of\<close>; numbers are the integers.
\<close>

datatype json =
    JNull
  | JBool bool
  | JNum int
  | JStr string
  | JArr "json list"
  | JObj "(string \<times> json) list"

text \<open>Exceptions that no handler of \<^verbatim>\<open>app.py\<close> catches: they leave the view function.\<close>

datatype py_error = AttributeError | TypeError | KeyError | IndexError

text \<open>Python's truth test, as applied by \<^verbatim>\<open>not x\<close> and \<^verbatim>\<open>x or y\<close>.\<close>

fun truthy :: "json \<Rightarrow> bool" where
  "truthy JNull = False"
| "truthy (JBool b) = b"
| "truthy (JNum n) = (n \<noteq> 0)"
| "truthy (JStr s) = (s \<noteq> [])"
| "truthy (JArr xs) = (xs \<noteq> [])"
| "truthy (JObj kvs) = (kvs \<noteq> [])"

text \<open>\<^verbatim>\<open>d.get(k, default)\<close>: only a dict has the method.\<close>

fun py_get :: "json \<Rightarrow> string \<Rightarrow> json \<Rightarrow> py_error + json" where
  "py_get (JObj kvs) k d = Inr (case map_of kvs k of None \<Rightarrow> d | Some v \<Rightarrow> v)"
| "py_get _ k d = Inl AttributeError"

text \<open>\<^verbatim>\<open>k in s\<close> on two strings is the substring test.\<close>

fun is_substring :: "string \<Rightarrow> string \<Rightarrow> bool" where
  "is_substring p [] = (p = [])"
| "is_substring p (c # cs) = (prefix p (c # cs) \<or> is_substring p cs)"

text \<open>
  \<^verbatim>\<open>k in data\<close> for a string \<open>k\<close>: key membership on a dict, element membership on a list,
  substring on a string, \<^verbatim>\<open>TypeError\<close> on \<^verbatim>\<open>None\<close>, a bool or a number.
\<close>

fun py_contains :: "json \<Rightarrow> string \<Rightarrow> py_error + bool" where
  "py_contains (JObj kvs) k = Inr (map_of kvs k \<noteq> None)"
| "py_contains (JArr xs) k = Inr (JStr k \<in> set xs)"
| "py_contains (JStr s) k = Inr (is_substring k s)"
| "py_contains _ k = Inl TypeError"

text \<open>\<^verbatim>\<open>data[k]\<close> for a string \<open>k\<close>.\<close>

fun py_index :: "json \<Rightarrow> string \<Rightarrow> py_error + json" where
  "py_index (JObj kvs) k = (case map_of kvs k of None \<Rightarrow> Inl KeyError | Some v \<Rightarrow> Inr v)"
| "py_index _ k = Inl TypeError"

section \<open>Data stores\<close>

text \<open>
  \<^verbatim>\<open>hashlib.sha256(s.encode()).hexdigest()\<close> is written \<open>Sha256_hex s\<close>: two digests are
  equal exactly when the hashed strings are (SHA-256 taken as collision free).
\<close>

datatype digest = Sha256_hex string

record user =
  user_id :: int
  user_username :: string
  user_password :: digest
  user_tenant :: string
  user_role :: string
  user_name :: string

record tenant =
  tenant_id :: string
  tenant_name :: string
  tenant_parent :: "string option"
  tenant_active :: bool

text \<open>
  A resource dict has the four keys \<^verbatim>\<open>id\<close>, \<^verbatim>\<open>tenant\<close>, \<^verbatim>\<open>name\<close>, \<^verbatim>\<open>type\<close>. The name and the
  type come from request bodies unchecked, so they are arbitrary JSON values.
\<close>

record resource =
  res_id :: int
  res_tenant :: string
  res_name :: json
  res_type :: json

text \<open>The module-level globals \<^verbatim>\<open>resources\<close> and \<^verbatim>\<open>next_resource_id\<close>.\<close>

record store =
  resources :: "resource list"
  next_resource_id :: int

text \<open>The \<^verbatim>\<open>users\<close> dict, entry by entry.\<close>

definition alice :: user where
  "alice = \<lparr>user_id = 1, user_username = ''alice'', user_password = Sha256_hex ''alice123'',
      user_tenant = ''acme'', user_role = ''admin'', user_name = ''Alice Admin''\<rparr>"

definition bob :: user where
  "bob = \<lparr>user_id = 2, user_username = ''bob'', user_password = Sha256_hex ''bob123'',
      user_tenant = ''acme'', user_role = ''user'', user_name = ''Bob User''\<rparr>"

definition charlie :: user where
  "charlie = \<lparr>user_id = 3, user_username = ''charlie'',
      user_password = Sha256_hex ''charlie123'',
      user_tenant = ''globex'', user_role = ''admin'', user_name = ''Charlie Admin''\<rparr>"

definition diana :: user where
  "diana = \<lparr>user_id = 4, user_username = ''diana'', user_password = Sha256_hex ''diana123'',
      user_tenant = ''globex'', user_role = ''user'', user_name = ''Diana User''\<rparr>"

definition root :: user where
  "root = \<lparr>user_id = 0, user_username = ''root'', user_password = Sha256_hex ''root123'',
      user_tenant = ''system'', user_role = ''superadmin'', user_name = ''Root Superadmin''\<rparr>"

definition users :: "(string \<times> user) list" where
  "users = [(''alice'', alice), (''bob'', bob), (''charlie'', charlie), (''diana'', diana),
            (''root'', root)]"

definition tenants :: "(string \<times> tenant) list" where
  "tenants =
    [(''acme'', \<lparr>tenant_id = ''acme'', tenant_name = ''Acme Corporation'',
        tenant_parent = None, tenant_active = True\<rparr>),
     (''globex'', \<lparr>tenant_id = ''globex'', tenant_name = ''Globex Inc'',
        tenant_parent = None, tenant_active = True\<rparr>),
     (''system'', \<lparr>tenant_id = ''system'', tenant_name = ''System'',
        tenant_parent = None, tenant_active = True\<rparr>)]"

definition initial_store :: store where
  "initial_store =
    \<lparr>resources =
       [\<lparr>res_id = 1, res_tenant = ''acme'', res_name = JStr ''Acme Q1 Report'',
          res_type = JStr ''document''\<rparr>,
        \<lparr>res_id = 2, res_tenant = ''acme'', res_name = JStr ''Acme Strategy'',
          res_type = JStr ''document''\<rparr>,
        \<lparr>res_id = 3, res_tenant = ''globex'', res_name = JStr ''Globex Financials'',
          res_type = JStr ''spreadsheet''\<rparr>,
        \<lparr>res_id = 4, res_tenant = ''globex'', res_name = JStr ''Globex Roadmap'',
          res_type = JStr ''document''\<rparr>],
     next_resource_id = 5\<rparr>"

text \<open>
  \<^verbatim>\<open>users.get(key)\<close> with a key taken from JSON: a list or a dict is unhashable
  (\<^verbatim>\<open>TypeError\<close>); every key of the directory is a string, so no other value finds a record.
\<close>

fun users_get :: "(string \<times> user) list \<Rightarrow> json \<Rightarrow> py_error + user option" where
  "users_get us (JStr k) = Inr (map_of us k)"
| "users_get us (JArr xs) = Inl TypeError"
| "users_get us (JObj kvs) = Inl TypeError"
| "users_get us _ = Inr None"

section \<open>Responses\<close>

text \<open>
  The body handed to \<^verbatim>\<open>jsonify\<close>, one constructor per top-level key. A view that returns
  no status answers 200.
\<close>

datatype body =
    Error string
  | Message string
  | Resources "resource list"
  | Resource resource
  | Tenants "tenant list"
  | Tenant tenant
  | Login string string string string string

type_synonym response = "nat \<times> body"

text \<open>
  What a view does: it raises or answers, leaves a store behind, and has posted a list of
  request bodies to the PDP.
\<close>

type_synonym outcome = "(py_error + response) \<times> store \<times> json list"

section \<open>Authorization with OPA\<close>

text \<open>What \<^verbatim>\<open>requests.post(OPA_URL, json=..., timeout=2)\<close> and \<^verbatim>\<open>response.json()\<close> can do.\<close>

datatype http_body = Malformed | Parsed json

datatype post_result = ConnectionError | Timeout | Response int http_body

definition resource_json :: "resource \<Rightarrow> json" where
  "resource_json r =
    JObj [(''id'', JNum (res_id r)), (''tenant'', JStr (res_tenant r)),
          (''name'', res_name r), (''type'', res_type r)]"

text \<open>
  \<^verbatim>\<open>resource or {'tenant': g.user['tenant']}\<close>. A resource dict is never empty, so the
  default is taken exactly when the argument is \<^verbatim>\<open>None\<close>; a resource is passed as the whole
  dict.
\<close>

definition resource_context :: "user \<Rightarrow> resource option \<Rightarrow> json" where
  "resource_context u resource =
    (case resource of
       None \<Rightarrow> JObj [(''tenant'', JStr (user_tenant u))]
     | Some r \<Rightarrow> resource_json r)"

definition input_data :: "user \<Rightarrow> string \<Rightarrow> resource option \<Rightarrow> json" where
  "input_data u action resource =
    JObj [(''user'', JObj [(''id'', JNum (user_id u)), (''username'', JStr (user_username u)),
                           (''tenant'', JStr (user_tenant u)), (''role'', JStr (user_role u))]),
          (''action'', JStr action),
          (''resource'', resource_context u resource)]"

text \<open>The keys of a JSON object, in order.\<close>

fun object_keys :: "json \<Rightarrow> string list" where
  "object_keys (JObj kvs) = map fst kvs"
| "object_keys _ = []"

text \<open>
  \<^verbatim>\<open>check_opa_permission\<close>. The network is the parameter \<open>post\<close>. Connection errors,
  timeouts and the \<^verbatim>\<open>JSONDecodeError\<close> of \<^verbatim>\<open>response.json()\<close> are \<^verbatim>\<open>RequestException\<close>s
  (requests 2.27 and later) and reach the \<^verbatim>\<open>except\<close> clause; an \<^verbatim>\<open>AttributeError\<close> of
  \<^verbatim>\<open>result.get\<close> does not. The value returned is whatever sits under \<^verbatim>\<open>result\<close>.
\<close>

definition check_opa_permission ::
  "(json \<Rightarrow> post_result) \<Rightarrow> user \<Rightarrow> string \<Rightarrow> resource option \<Rightarrow> (py_error + json) \<times> json list" where
  "check_opa_permission post u action resource =
    (let query = JObj [(''input'', input_data u action resource)] in
     ((case post query of
         Response status_code b \<Rightarrow>
           (if status_code = 200 then
              (case b of
                 Parsed result \<Rightarrow> py_get result ''result'' (JBool False)
               | Malformed \<Rightarrow> Inr (JBool False))
            else Inr (JBool False))
       | ConnectionError \<Rightarrow> Inr (JBool False)
       | Timeout \<Rightarrow> Inr (JBool False)),
      [query]))"

section \<open>Authentication\<close>

text \<open>\<^verbatim>\<open>s.split(c)\<close> on one separator character: empty pieces are kept.\<close>

fun py_split :: "char \<Rightarrow> string \<Rightarrow> string list" where
  "py_split c [] = [[]]"
| "py_split c (x # xs) =
     (if x = c then [] # py_split c xs
      else (case py_split c xs of
              [] \<Rightarrow> [[x]]
            | w # ws \<Rightarrow> (x # w) # ws))"

text \<open>
  What \<^verbatim>\<open>jwt.decode(token, SECRET_KEY, algorithms=['HS256'])\<close> can do: return the claims
  dict, raise \<^verbatim>\<open>ExpiredSignatureError\<close> (signature good, \<^verbatim>\<open>exp\<close> in the past), or raise
  another \<^verbatim>\<open>InvalidTokenError\<close> (bad signature, undecodable segments or claims). The
  library is a parameter of the decorator.
\<close>

datatype decode_result =
    Claims "(string \<times> json) list"
  | ExpiredSignatureError
  | InvalidTokenError

text \<open>\<^verbatim>\<open>app.config['SECRET_KEY']\<close>.\<close>

definition SECRET_KEY :: string where
  "SECRET_KEY = ''demo-secret-change-in-production''"

text \<open>
  A token once its three segments are decoded: the claims, and the signature, written as
  the key the MAC over the claims was computed with (a signature matches a key exactly when
  it was made with that key).
\<close>

record jwt =
  jwt_claims :: "(string \<times> json) list"
  jwt_signed_with :: string

text \<open>
  Modelled from the spec: the token verifier. The sources only call it, as
  \<^verbatim>\<open>jwt.decode(token, SECRET_KEY, algorithms=['HS256'])\<close>; its code is the PyJWT library's.
  The spec (4.1, 6) has a token of three segments, header, claims including a numeric
  expiry, and signature, a MAC over the claims under the shared secret; verification fails
  as invalid when the signature does not match or the claims are malformed, and as expired
  when the expiry claim is in the past. \<open>segments\<close> decodes the wire string (\<open>None\<close> when
  it is not three decodable segments) and \<open>now\<close> is the time of the request in seconds.
\<close>

definition verify :: "(string \<Rightarrow> jwt option) \<Rightarrow> int \<Rightarrow> string \<Rightarrow> string \<Rightarrow> decode_result" where
  "verify segments now key token =
    (case segments token of
       None \<Rightarrow> InvalidTokenError
     | Some t \<Rightarrow>
         if jwt_signed_with t \<noteq> key then InvalidTokenError
         else
           (case map_of (jwt_claims t) ''exp'' of
              Some (JNum e) \<Rightarrow> if e < now then ExpiredSignatureError else Claims (jwt_claims t)
            | _ \<Rightarrow> InvalidTokenError))"

text \<open>\<^verbatim>\<open>auth_header.split(' ')[1]\<close>; indexing a list of one piece raises.\<close>

definition bearer_token :: "string \<Rightarrow> py_error + string" where
  "bearer_token h =
    (case py_split CHR '' '' h of
       _ # token # _ \<Rightarrow> Inr token
     | _ \<Rightarrow> Inl IndexError)"

text \<open>
  \<^verbatim>\<open>require_auth(f)\<close>: the decorated view. \<open>us\<close> is the user directory, \<open>auth_header\<close> the
  \<^verbatim>\<open>Authorization\<close> header if the request has one, and \<open>f\<close> the wrapped view, which receives
  \<^verbatim>\<open>g.user\<close>. \<^verbatim>\<open>payload['username']\<close> and \<^verbatim>\<open>users.get\<close> run inside the \<^verbatim>\<open>try\<close>, whose two
  clauses catch token errors only.
\<close>

definition require_auth ::
  "(string \<Rightarrow> decode_result) \<Rightarrow> (string \<times> user) list \<Rightarrow> string option \<Rightarrow>
   (user \<Rightarrow> store \<Rightarrow> outcome) \<Rightarrow> store \<Rightarrow> outcome" where
  "require_auth jwt_decode us auth_header f st =
    (case auth_header of
       None \<Rightarrow> (Inr (401, Error ''No token provided''), st, [])
     | Some h \<Rightarrow>
         if h = [] \<or> \<not> prefix ''Bearer '' h
         then (Inr (401, Error ''No token provided''), st, [])
         else
           (case bearer_token h of
              Inl e \<Rightarrow> (Inl e, st, [])
            | Inr token \<Rightarrow>
                (case jwt_decode token of
                   Claims payload \<Rightarrow>
                     (case map_of payload ''username'' of
                        None \<Rightarrow> (Inl KeyError, st, [])
                      | Some name \<Rightarrow>
                          (case users_get us name of
                             Inl e \<Rightarrow> (Inl e, st, [])
                           | Inr None \<Rightarrow> (Inr (401, Error ''User not found''), st, [])
                           | Inr (Some g_user) \<Rightarrow> f g_user st))
                 | ExpiredSignatureError \<Rightarrow> (Inr (401, Error ''Token expired''), st, [])
                 | InvalidTokenError \<Rightarrow> (Inr (401, Error ''Invalid token''), st, []))))"

text \<open>\<^verbatim>\<open>hashlib.sha256(password.encode()).hexdigest()\<close>: only a \<^verbatim>\<open>str\<close> has \<^verbatim>\<open>encode\<close>.\<close>

fun sha256_hexdigest :: "json \<Rightarrow> py_error + digest" where
  "sha256_hexdigest (JStr s) = Inr (Sha256_hex s)"
| "sha256_hexdigest _ = Inl AttributeError"

text \<open>
  \<^verbatim>\<open>login\<close>, on the parsed request body \<open>data\<close>. \<open>jwt_encode\<close> signs the claims; \<open>now\<close> is
  \<^verbatim>\<open>datetime.utcnow()\<close> in seconds, and the token lives 24 hours.
\<close>

definition login ::
  "((string \<times> json) list \<Rightarrow> string) \<Rightarrow> int \<Rightarrow> (string \<times> user) list \<Rightarrow> json \<Rightarrow>
   py_error + response" where
  "login jwt_encode now us data =
    (case py_get data ''username'' JNull of
       Inl e \<Rightarrow> Inl e
     | Inr username \<Rightarrow>
    (case py_get data ''password'' JNull of
       Inl e \<Rightarrow> Inl e
     | Inr password \<Rightarrow>
    (case users_get us username of
       Inl e \<Rightarrow> Inl e
     | Inr None \<Rightarrow> Inr (401, Error ''Invalid credentials'')
     | Inr (Some u) \<Rightarrow>
    (case sha256_hexdigest password of
       Inl e \<Rightarrow> Inl e
     | Inr password_hash \<Rightarrow>
         if user_password u \<noteq> password_hash
         then Inr (401, Error ''Invalid credentials'')
         else
           Inr (200,
             Login
               (jwt_encode [(''username'', JStr (user_username u)),
                            (''tenant'', JStr (user_tenant u)),
                            (''role'', JStr (user_role u)),
                            (''exp'', JNum (now + 24 * 3600))])
               (user_username u) (user_name u) (user_tenant u) (user_role u))))))"

section \<open>Resource views\<close>

definition list_resources :: "user \<Rightarrow> store \<Rightarrow> outcome" where
  "list_resources g_user st =
    (let accessible =
       (if user_role g_user = ''superadmin'' then resources st
        else filter (\<lambda>r. res_tenant r = user_tenant g_user) (resources st))
     in (Inr (200, Resources accessible), st, []))"

definition create_resource ::
  "(json \<Rightarrow> post_result) \<Rightarrow> json \<Rightarrow> user \<Rightarrow> store \<Rightarrow> outcome" where
  "create_resource post data g_user st =
    (case check_opa_permission post g_user ''create'' None of
       (Inl e, sent) \<Rightarrow> (Inl e, st, sent)
     | (Inr allowed, sent) \<Rightarrow>
         if \<not> truthy allowed then (Inr (403, Error ''Forbidden''), st, sent)
         else
           (case py_get data ''name'' JNull of
              Inl e \<Rightarrow> (Inl e, st, sent)
            | Inr name \<Rightarrow>
           (case py_get data ''type'' (JStr ''document'') of
              Inl e \<Rightarrow> (Inl e, st, sent)
            | Inr type \<Rightarrow>
                (let new_resource =
                   \<lparr>res_id = next_resource_id st, res_tenant = user_tenant g_user,
                    res_name = name, res_type = type\<rparr>
                 in (Inr (201, Resource new_resource),
                     st\<lparr>resources := resources st @ [new_resource],
                        next_resource_id := next_resource_id st + 1\<rparr>,
                     sent)))))"

text \<open>\<^verbatim>\<open>next((r for r in resources if r['id'] == resource_id), None)\<close> is \<open>find\<close>.\<close>

definition get_resource ::
  "(json \<Rightarrow> post_result) \<Rightarrow> int \<Rightarrow> user \<Rightarrow> store \<Rightarrow> outcome" where
  "get_resource post resource_id g_user st =
    (case find (\<lambda>r. res_id r = resource_id) (resources st) of
       None \<Rightarrow> (Inr (404, Error ''Resource not found''), st, [])
     | Some resource \<Rightarrow>
         (case check_opa_permission post g_user ''read'' (Some resource) of
            (Inl e, sent) \<Rightarrow> (Inl e, st, sent)
          | (Inr allowed, sent) \<Rightarrow>
              if \<not> truthy allowed then (Inr (403, Error ''Forbidden''), st, sent)
              else (Inr (200, Resource resource), st, sent)))"

text \<open>
  \<^verbatim>\<open>if k in data: resource[k] = data[k]\<close>, where \<open>assign\<close> stores into the field \<open>k\<close> names.
\<close>

definition assign_if_present ::
  "json \<Rightarrow> string \<Rightarrow> (json \<Rightarrow> resource \<Rightarrow> resource) \<Rightarrow> resource \<Rightarrow> py_error + resource" where
  "assign_if_present data k assign r =
    (case py_contains data k of
       Inl e \<Rightarrow> Inl e
     | Inr False \<Rightarrow> Inr r
     | Inr True \<Rightarrow> (case py_index data k of Inl e \<Rightarrow> Inl e | Inr v \<Rightarrow> Inr (assign v r)))"

text \<open>
  The view mutates the dict that \<^verbatim>\<open>next\<close> found, which is the first list element with the
  id: the list afterwards holds the new dict at that place.
\<close>

fun replace_first :: "int \<Rightarrow> resource \<Rightarrow> resource list \<Rightarrow> resource list" where
  "replace_first i r' [] = []"
| "replace_first i r' (r # rs) = (if res_id r = i then r' # rs else r # replace_first i r' rs)"

definition update_resource ::
  "(json \<Rightarrow> post_result) \<Rightarrow> int \<Rightarrow> json \<Rightarrow> user \<Rightarrow> store \<Rightarrow> outcome" where
  "update_resource post resource_id data g_user st =
    (case find (\<lambda>r. res_id r = resource_id) (resources st) of
       None \<Rightarrow> (Inr (404, Error ''Resource not found''), st, [])
     | Some resource \<Rightarrow>
         (case check_opa_permission post g_user ''update'' (Some resource) of
            (Inl e, sent) \<Rightarrow> (Inl e, st, sent)
          | (Inr allowed, sent) \<Rightarrow>
              if \<not> truthy allowed then (Inr (403, Error ''Forbidden''), st, sent)
              else
                (case assign_if_present data ''name'' (\<lambda>v r. r\<lparr>res_name := v\<rparr>) resource of
                   Inl e \<Rightarrow> (Inl e, st, sent)
                 | Inr r1 \<Rightarrow>
                     (case assign_if_present data ''type'' (\<lambda>v r. r\<lparr>res_type := v\<rparr>) r1 of
                        Inl e \<Rightarrow>
                          (Inl e,
                           st\<lparr>resources := replace_first resource_id r1 (resources st)\<rparr>, sent)
                      | Inr r2 \<Rightarrow>
                          (Inr (200, Resource r2),
                           st\<lparr>resources := replace_first resource_id r2 (resources st)\<rparr>,
                           sent)))))"

definition delete_resource ::
  "(json \<Rightarrow> post_result) \<Rightarrow> int \<Rightarrow> user \<Rightarrow> store \<Rightarrow> outcome" where
  "delete_resource post resource_id g_user st =
    (case find (\<lambda>r. res_id r = resource_id) (resources st) of
       None \<Rightarrow> (Inr (404, Error ''Resource not found''), st, [])
     | Some resource \<Rightarrow>
         (case check_opa_permission post g_user ''delete'' (Some resource) of
            (Inl e, sent) \<Rightarrow> (Inl e, st, sent)
          | (Inr allowed, sent) \<Rightarrow>
              if \<not> truthy allowed then (Inr (403, Error ''Forbidden''), st, sent)
              else
                (Inr (200, Message ''Resource deleted''),
                 st\<lparr>resources := filter (\<lambda>r. res_id r \<noteq> resource_id) (resources st)\<rparr>,
                 sent)))"

section \<open>Tenant views\<close>

definition list_tenants :: "(string \<times> tenant) list \<Rightarrow> user \<Rightarrow> store \<Rightarrow> outcome" where
  "list_tenants ts g_user st =
    (if user_role g_user \<noteq> ''superadmin'' then (Inr (403, Error ''Forbidden''), st, [])
     else (Inr (200, Tenants (map snd ts)), st, []))"

definition get_tenant :: "(string \<times> tenant) list \<Rightarrow> string \<Rightarrow> user \<Rightarrow> store \<Rightarrow> outcome" where
  "get_tenant ts tid g_user st =
    (case map_of ts tid of
       None \<Rightarrow> (Inr (404, Error ''Tenant not found''), st, [])
     | Some t \<Rightarrow>
         if user_role g_user \<noteq> ''superadmin'' \<and> user_tenant g_user \<noteq> tid
         then (Inr (403, Error ''Forbidden''), st, [])
         else (Inr (200, Tenant t), st, []))"

section \<open>Stores the running server can hold\<close>

text \<open>
  The store starts as \<open>initial_store\<close> and changes only through the three mutating views,
  whatever the caller, the request and the PDP's answer.
\<close>

inductive reachable :: "store \<Rightarrow> bool" where
  initial: "reachable initial_store"
| created: "reachable st \<Longrightarrow> create_resource post data u st = (res, st', sent) \<Longrightarrow> reachable st'"
| updated: "reachable st \<Longrightarrow> update_resource post i data u st = (res, st', sent) \<Longrightarrow> reachable st'"
| deleted: "reachable st \<Longrightarrow> delete_resource post i u st = (res, st', sent) \<Longrightarrow> reachable st'"

section \<open>PDP behaviours and decoders used in the scenarios\<close>

definition pdp_result :: "json \<Rightarrow> json \<Rightarrow> post_result" where
  "pdp_result v query = Response 200 (Parsed (JObj [(''result'', v)]))"

definition pdp_body :: "json \<Rightarrow> json \<Rightarrow> post_result" where
  "pdp_body b query = Response 200 (Parsed b)"

definition pdp_status :: "int \<Rightarrow> json \<Rightarrow> post_result" where
  "pdp_status code query = Response code Malformed"

definition pdp_down :: "json \<Rightarrow> post_result" where
  "pdp_down query = ConnectionError"

definition decode_as :: "decode_result \<Rightarrow> string \<Rightarrow> decode_result" where
  "decode_as d token = d"

definition encode_plain :: "(string \<times> json) list \<Rightarrow> string" where
  "encode_plain claims = ''token''"

text \<open>
  Four tokens on the wire, for requests made at the time 2000: one of alice's that ran out
  at 1000, one with alice's claims signed with another key, one signed with the server's
  key whose claims have no username, and one signed with the server's key whose username
  is a list.
\<close>

definition wire :: "string \<Rightarrow> jwt option" where
  "wire =
    map_of
      [(''t.expired'',
        \<lparr>jwt_claims = [(''username'', JStr ''alice''), (''tenant'', JStr ''acme''),
                        (''role'', JStr ''admin''), (''exp'', JNum 1000)],
         jwt_signed_with = SECRET_KEY\<rparr>),
       (''t.forged'',
        \<lparr>jwt_claims = [(''username'', JStr ''alice''), (''tenant'', JStr ''acme''),
                        (''role'', JStr ''admin''), (''exp'', JNum 90000)],
         jwt_signed_with = ''guessed-key''\<rparr>),
       (''t.nouser'',
        \<lparr>jwt_claims = [(''tenant'', JStr ''acme''), (''role'', JStr ''admin''),
                        (''exp'', JNum 90000)],
         jwt_signed_with = SECRET_KEY\<rparr>),
       (''t.listuser'',
        \<lparr>jwt_claims = [(''username'', JArr [JStr ''alice'']), (''tenant'', JStr ''acme''),
                        (''role'', JStr ''admin''), (''exp'', JNum 90000)],
         jwt_signed_with = SECRET_KEY\<rparr>)]"

section \<open>Predicates of the statements\<close>

text \<open>Every stored id lies below the counter, and no two stored resources share an id.\<close>

definition ids_below :: "store \<Rightarrow> bool" where
  "ids_below st =
    (list_all (\<lambda>r. res_id r < next_resource_id st) (resources st) \<and>
     distinct (map res_id (resources st)))"

text \<open>
  What an update of the resource \<open>i\<close> may do to a stored resource \<open>a\<close>, giving \<open>b\<close>: never
  touch the id or the tenant, and touch nothing at all unless \<open>a\<close> has the id \<open>i\<close>.
\<close>

definition same_but :: "int \<Rightarrow> resource \<Rightarrow> resource \<Rightarrow> bool" where
  "same_but i a b =
    (res_id b = res_id a \<and> res_tenant b = res_tenant a \<and> (res_id a \<noteq> i \<longrightarrow> b = a))"

text \<open>The claims dict of a token as \<^verbatim>\<open>login\<close> mints it, for a given username.\<close>

definition claims_of :: "string \<Rightarrow> (string \<times> json) list" where
  "claims_of name =
    [(''username'', JStr name), (''tenant'', JStr ''acme''), (''role'', JStr ''admin''),
     (''exp'', JNum 4102444800)]"

section \<open>The policy decision client\<close>

text \<open>
  Where the client does fail closed: a connection error, a timeout, a status other than
  200, a body that is not JSON, and a JSON object without the key \<^verbatim>\<open>result\<close>.
\<close>

lemma check_opa_permission_connection_error:
  "post (JObj [(''input'', input_data u action resource)]) = ConnectionError \<Longrightarrow>
   fst (check_opa_permission post u action resource) = Inr (JBool False)"
  by (simp add: check_opa_permission_def)

lemma check_opa_permission_timeout:
  "post (JObj [(''input'', input_data u action resource)]) = Timeout \<Longrightarrow>
   fst (check_opa_permission post u action resource) = Inr (JBool False)"
  by (simp add: check_opa_permission_def)

lemma check_opa_permission_status:
  "post (JObj [(''input'', input_data u action resource)]) = Response code b \<Longrightarrow> code \<noteq> 200 \<Longrightarrow>
   fst (check_opa_permission post u action resource) = Inr (JBool False)"
  by (simp add: check_opa_permission_def)

lemma check_opa_permission_malformed:
  "post (JObj [(''input'', input_data u action resource)]) = Response 200 Malformed \<Longrightarrow>
   fst (check_opa_permission post u action resource) = Inr (JBool False)"
  by (simp add: check_opa_permission_def)

lemma check_opa_permission_no_result_key:
  "post (JObj [(''input'', input_data u action resource)]) = Response 200 (Parsed (JObj kvs)) \<Longrightarrow>
   map_of kvs ''result'' = None \<Longrightarrow>
   fst (check_opa_permission post u action resource) = Inr (JBool False)"
  by (simp add: check_opa_permission_def)

lemma check_opa_permission_sends_once:
  "snd (check_opa_permission post u action resource) =
   [JObj [(''input'', input_data u action resource)]]"
  by (simp add: check_opa_permission_def Let_def)

text \<open>
  C1. The permission check is meant to deny whenever the PDP's answer is not a well-formed
  decision. It does not on a 200 reply of unexpected shape: for \<^verbatim>\<open>bob\<close> asking to create, a
  body that is a JSON array makes \<^verbatim>\<open>result.get\<close> raise \<^verbatim>\<open>AttributeError\<close>, which the
  \<^verbatim>\<open>except\<close> clause does not catch; and the body \<^verbatim>\<open>{"result": "no"}\<close> makes the check return
  the string, which the views' \<^verbatim>\<open>if not ...\<close> test takes as an allow, so the resource is
  created.
\<close>

theorem check_opa_permission_unexpected_shape:
  "fst (check_opa_permission (pdp_body (JArr [])) bob ''create'' None) = Inl AttributeError \<and>
   fst (check_opa_permission (pdp_result (JStr ''no'')) bob ''create'' None) = Inr (JStr ''no'') \<and>
   truthy (JStr ''no'') \<and>
   fst (create_resource (pdp_result (JStr ''no'')) (JObj [(''name'', JStr ''x'')]) bob
          initial_store) =
     Inr (201, Resource \<lparr>res_id = 5, res_tenant = ''acme'', res_name = JStr ''x'',
                          res_type = JStr ''document''\<rparr>)"
  by (simp add: check_opa_permission_def pdp_body_def pdp_result_def create_resource_def
      initial_store_def bob_def Let_def)

section \<open>Listing\<close>

text \<open>
  C2. \<^verbatim>\<open>list_resources\<close> answers 200 with the whole store for a superadmin, and otherwise
  with exactly the stored resources of the caller's tenant, in store order; it leaves the
  store as it is and posts nothing to the PDP. So a resource of another tenant is never in
  the list of a caller who is not superadmin.
\<close>

theorem list_resources_tenant_scope:
  "\<exists>rs. list_resources u st = (Inr (200, Resources rs), st, []) \<and>
     (user_role u = ''superadmin'' \<longrightarrow> rs = resources st) \<and>
     (user_role u \<noteq> ''superadmin'' \<longrightarrow>
        rs = filter (\<lambda>r. res_tenant r = user_tenant u) (resources st) \<and>
        set rs = {r \<in> set (resources st). res_tenant r = user_tenant u} \<and>
        (\<forall>r \<in> set (resources st). res_tenant r \<noteq> user_tenant u \<longrightarrow> r \<notin> set rs))"
  by (auto simp: list_resources_def)

theorem list_resources_tenant_scope_witness:
  "user_role bob \<noteq> ''superadmin'' \<and>
   list_resources bob initial_store =
     (Inr (200, Resources (take 2 (resources initial_store))), initial_store, []) \<and>
   resources initial_store ! 2 \<in> set (resources initial_store) \<and>
   res_tenant (resources initial_store ! 2) \<noteq> user_tenant bob \<and>
   resources initial_store ! 2 \<notin> set (take 2 (resources initial_store)) \<and>
   list_resources root initial_store =
     (Inr (200, Resources (resources initial_store)), initial_store, [])"
  using list_resources_tenant_scope [of bob initial_store]
    list_resources_tenant_scope [of root initial_store]
  by (simp add: bob_def root_def initial_store_def)

section \<open>Ids of a reachable store\<close>

lemma assign_if_present_keeps:
  "assign_if_present data k assign r = Inr r' \<Longrightarrow>
   (\<And>v x. res_id (assign v x) = res_id x \<and> res_tenant (assign v x) = res_tenant x) \<Longrightarrow>
   res_id r' = res_id r \<and> res_tenant r' = res_tenant r"
  by (auto simp: assign_if_present_def split: sum.splits bool.splits)

lemma map_id_replace_first:
  "res_id r' = i \<Longrightarrow> map res_id (replace_first i r' rs) = map res_id rs"
  by (induction rs) auto

lemma find_id: "find (\<lambda>r. res_id r = i) rs = Some r \<Longrightarrow> res_id r = i \<and> r \<in> set rs"
  by (induction rs) (auto split: if_splits)

lemma ids_below_ids:
  "ids_below st =
    ((\<forall>i \<in> set (map res_id (resources st)). i < next_resource_id st) \<and>
     distinct (map res_id (resources st)))"
  by (auto simp: ids_below_def list_all_iff)

lemma create_ids_below:
  "ids_below st \<Longrightarrow> create_resource post data u st = (res, st', sent) \<Longrightarrow> ids_below st'"
  by (auto simp: ids_below_ids create_resource_def Let_def split: prod.splits sum.splits if_splits)
    force+

lemma update_ids:
  "update_resource post i data u st = (res, st', sent) \<Longrightarrow>
   map res_id (resources st') = map res_id (resources st) \<and> next_resource_id st' = next_resource_id st"
  by (auto simp: update_resource_def split: option.splits prod.splits sum.splits if_splits
      dest!: find_id assign_if_present_keeps intro!: map_id_replace_first)

lemma update_ids_below:
  "ids_below st \<Longrightarrow> update_resource post i data u st = (res, st', sent) \<Longrightarrow> ids_below st'"
  using update_ids[of post i data u st res st' sent] by (simp add: ids_below_ids)

lemma delete_ids_below:
  "ids_below st \<Longrightarrow> delete_resource post i u st = (res, st', sent) \<Longrightarrow> ids_below st'"
  by (auto simp: ids_below_ids delete_resource_def distinct_map_filter split: option.splits prod.splits sum.splits if_splits)

lemma reachable_ids_below: "reachable st \<Longrightarrow> ids_below st"
proof (induction rule: reachable.induct)
  case initial
  show ?case by (simp add: ids_below_def initial_store_def)
next
  case (created st post data u res st' sent)
  then show ?case by (blast intro: create_ids_below)
next
  case (updated st post i data u res st' sent)
  then show ?case by (blast intro: update_ids_below)
next
  case (deleted st post i u res st' sent)
  then show ?case by (blast intro: delete_ids_below)
qed

lemma find_None_ids: "find (\<lambda>r. res_id r = i) rs = None \<longleftrightarrow> i \<notin> set (map res_id rs)"
  by (induction rs) auto

section \<open>Creating\<close>

text \<open>
  What holds of every create call: on a store the server can hold, a call that answers with
  a 2xx status answers 201 with a resource whose tenant is the caller's, whatever the
  request body says, and whose id is the counter's value, which no stored resource has; the
  resource is appended and the counter moves on. The call gets that far only when
  \<^verbatim>\<open>check_opa_permission\<close>, asked once about the action \<^verbatim>\<open>create\<close> with the resource context
  \<^verbatim>\<open>{tenant: caller's}\<close>, returned a value that Python takes as true, which need not be
  \<^verbatim>\<open>True\<close>.
\<close>

theorem create_resource_stamps_tenant:
  assumes "reachable st"
    and "create_resource post data u st = (Inr (code, b), st', sent)"
    and "200 \<le> code" and "code < 300"
  shows "\<exists>r allowed.
      code = 201 \<and> b = Resource r \<and>
      res_tenant r = user_tenant u \<and>
      res_id r = next_resource_id st \<and>
      res_id r \<notin> set (map res_id (resources st)) \<and>
      resources st' = resources st @ [r] \<and>
      next_resource_id st' = next_resource_id st + 1 \<and>
      check_opa_permission post u ''create'' None = (Inr allowed, sent) \<and> truthy allowed \<and>
      sent = [JObj [(''input'', JObj [(''user'', JObj [(''id'', JNum (user_id u)),
                 (''username'', JStr (user_username u)), (''tenant'', JStr (user_tenant u)),
                 (''role'', JStr (user_role u))]),
               (''action'', JStr ''create''),
               (''resource'', JObj [(''tenant'', JStr (user_tenant u))])])]]"
proof -
  from assms(1) have inv: "ids_below st" by (rule reachable_ids_below)
  then have fresh: "next_resource_id st \<notin> set (map res_id (resources st))"
    by (auto simp: ids_below_ids)
  obtain allowed where chk: "check_opa_permission post u ''create'' None = (Inr allowed, sent)"
    and ok: "truthy allowed"
    using assms(2,3,4)
    by (auto simp: create_resource_def Let_def split: prod.splits sum.splits if_splits)
  have sent: "sent = [JObj [(''input'', input_data u ''create'' None)]]"
    using chk check_opa_permission_sends_once [of post u "''create''" None] by simp
  from assms(2,3,4) chk ok fresh show ?thesis
    by (auto simp: create_resource_def Let_def sent input_data_def resource_context_def
        split: prod.splits sum.splits if_splits)
qed

theorem create_resource_stamps_tenant_witness:
  "reachable initial_store \<and>
   create_resource (pdp_result (JBool True))
     (JObj [(''name'', JStr ''plan''), (''tenant'', JStr ''globex'')]) bob initial_store =
     (Inr (201, Resource \<lparr>res_id = 5, res_tenant = ''acme'', res_name = JStr ''plan'',
                          res_type = JStr ''document''\<rparr>),
      initial_store\<lparr>resources := resources initial_store @
          [\<lparr>res_id = 5, res_tenant = ''acme'', res_name = JStr ''plan'',
            res_type = JStr ''document''\<rparr>], next_resource_id := 6\<rparr>,
      [JObj [(''input'', input_data bob ''create'' None)]]) \<and>
   (5::int) \<notin> set (map res_id (resources initial_store)) \<and>
   user_tenant bob = ''acme''"
proof -
  have run: "create_resource (pdp_result (JBool True))
     (JObj [(''name'', JStr ''plan''), (''tenant'', JStr ''globex'')]) bob initial_store =
     (Inr (201, Resource \<lparr>res_id = 5, res_tenant = ''acme'', res_name = JStr ''plan'',
                          res_type = JStr ''document''\<rparr>),
      initial_store\<lparr>resources := resources initial_store @
          [\<lparr>res_id = 5, res_tenant = ''acme'', res_name = JStr ''plan'',
            res_type = JStr ''document''\<rparr>], next_resource_id := 6\<rparr>,
      [JObj [(''input'', input_data bob ''create'' None)]])"
    by (simp add: create_resource_def check_opa_permission_def pdp_result_def Let_def
        initial_store_def bob_def)
  have tenant: "user_tenant bob = ''acme''" by (simp add: bob_def)
  from create_resource_stamps_tenant [OF reachable.initial run]
  have "(5::int) \<notin> set (map res_id (resources initial_store))"
    by (simp add: initial_store_def)
  with run tenant reachable.initial show ?thesis by simp
qed

text \<open>
  C3. A create call is to succeed only when the policy decision client returns true, with
  the caller's tenant stamped on a resource of fresh id. The stamping and the fresh id hold
  (above); the gate does not. When the PDP answers \<^verbatim>\<open>{"result": "no"}\<close> to \<^verbatim>\<open>alice\<close>, the client
  returns the string \<^verbatim>\<open>'no'\<close>, which is not \<^verbatim>\<open>True\<close>, and \<^verbatim>\<open>create_resource\<close> still answers 201
  and stores the resource.
\<close>

theorem create_resource_non_boolean_decision:
  "fst (check_opa_permission (pdp_result (JStr ''no'')) alice ''create'' None) =
     Inr (JStr ''no'') \<and>
   JStr ''no'' \<noteq> JBool True \<and>
   create_resource (pdp_result (JStr ''no'')) (JObj [(''name'', JStr ''plan'')]) alice
     initial_store =
     (Inr (201, Resource \<lparr>res_id = 5, res_tenant = ''acme'', res_name = JStr ''plan'',
                          res_type = JStr ''document''\<rparr>),
      initial_store\<lparr>resources := resources initial_store @
          [\<lparr>res_id = 5, res_tenant = ''acme'', res_name = JStr ''plan'',
            res_type = JStr ''document''\<rparr>], next_resource_id := 6\<rparr>,
      [JObj [(''input'', input_data alice ''create'' None)]])"
  by (simp add: create_resource_def check_opa_permission_def pdp_result_def Let_def
      initial_store_def alice_def)

section \<open>Deleting\<close>




section \<open>The query sent to the PDP\<close>

text \<open>
  C5, as the claim states it, fails: the resource context sent for a supplied resource is
  the whole resource dict, so it carries the key \<^verbatim>\<open>name\<close> besides \<^verbatim>\<open>id\<close>, \<^verbatim>\<open>tenant\<close> and
  \<^verbatim>\<open>type\<close>, as the query for \<^verbatim>\<open>bob\<close> reading resource 1 shows.
\<close>

theorem opa_query_resource_context_counterexample:
  "object_keys (resource_context bob (Some (hd (resources initial_store)))) =
     [''id'', ''tenant'', ''name'', ''type''] \<and>
   ''name'' \<in> set (object_keys (resource_context bob (Some (hd (resources initial_store))))) \<and>
   ''name'' \<notin> {''tenant'', ''id'', ''type''} \<and>
   snd (check_opa_permission pdp_down bob ''read'' (Some (hd (resources initial_store)))) =
     [JObj [(''input'', JObj [(''user'', JObj [(''id'', JNum 2), (''username'', JStr ''bob''),
                (''tenant'', JStr ''acme''), (''role'', JStr ''user'')]),
              (''action'', JStr ''read''),
              (''resource'', JObj [(''id'', JNum 1), (''tenant'', JStr ''acme''),
                 (''name'', JStr ''Acme Q1 Report''), (''type'', JStr ''document'')])])]]"
  by (simp add: resource_context_def resource_json_def initial_store_def bob_def
      check_opa_permission_def input_data_def Let_def)

text \<open>
  C5, amended. Every permission check posts one query: the caller's id, username, tenant
  and role, the action name, and as resource context the supplied resource's id, tenant,
  name and type, or \<^verbatim>\<open>{tenant: caller's tenant}\<close> when no resource is supplied.
\<close>

theorem opa_query_contents:
  "snd (check_opa_permission post u action resource) =
     [JObj [(''input'', JObj [(''user'', JObj [(''id'', JNum (user_id u)),
                (''username'', JStr (user_username u)), (''tenant'', JStr (user_tenant u)),
                (''role'', JStr (user_role u))]),
              (''action'', JStr action),
              (''resource'',
                 (case resource of
                    None \<Rightarrow> JObj [(''tenant'', JStr (user_tenant u))]
                  | Some r \<Rightarrow> JObj [(''id'', JNum (res_id r)), (''tenant'', JStr (res_tenant r)),
                                    (''name'', res_name r), (''type'', res_type r)]))])]]"
  by (simp add: check_opa_permission_def input_data_def resource_context_def resource_json_def
      Let_def split: option.splits)

theorem opa_query_contents_witness:
  "snd (check_opa_permission pdp_down bob ''create'' None) =
     [JObj [(''input'', JObj [(''user'', JObj [(''id'', JNum 2), (''username'', JStr ''bob''),
                (''tenant'', JStr ''acme''), (''role'', JStr ''user'')]),
              (''action'', JStr ''create''),
              (''resource'', JObj [(''tenant'', JStr ''acme'')])])]]"
  using opa_query_contents [of pdp_down bob "''create''" None]
  by (simp add: bob_def)

section \<open>Authentication failures\<close>

lemma py_split_not_Nil: "py_split c xs \<noteq> []"
  by (induction xs) (auto split: list.splits)

lemma bearer_token_prefix:
  assumes "prefix ''Bearer '' h"
  shows "\<exists>token. bearer_token h = Inr token"
proof -
  from assms obtain rest where h: "h = ''Bearer '' @ rest" by (auto simp: prefix_def)
  obtain w ws where "py_split CHR '' '' rest = w # ws"
    using py_split_not_Nil [of "CHR '' ''" rest] by (cases "py_split CHR '' '' rest") auto
  then show ?thesis by (simp add: h bearer_token_def)
qed

text \<open>
  How the decorator answers the decoder's verdicts, for any decoder: a request with no
  \<^verbatim>\<open>Authorization\<close> header, an empty one, or one that does not start with \<^verbatim>\<open>Bearer \<close> is
  answered 401 \<^verbatim>\<open>No token provided\<close>. A header that does start so always yields a token;
  when the decoder raises \<^verbatim>\<open>ExpiredSignatureError\<close> the answer is 401 \<^verbatim>\<open>Token expired\<close>, and
  when it raises another \<^verbatim>\<open>InvalidTokenError\<close> the answer is 401 \<^verbatim>\<open>Invalid token\<close>. In each
  case the store is untouched and the wrapped view plays no part.
\<close>

theorem require_auth_token_errors:
  "((auth_header = None \<or> auth_header = Some [] \<or>
      (\<exists>h. auth_header = Some h \<and> \<not> prefix ''Bearer '' h)) \<longrightarrow>
     require_auth jwt_decode us auth_header f st =
       (Inr (401, Error ''No token provided''), st, [])) \<and>
   (\<forall>h. auth_header = Some h \<and> prefix ''Bearer '' h \<longrightarrow>
     (\<exists>token. bearer_token h = Inr token \<and>
        (jwt_decode token = ExpiredSignatureError \<longrightarrow>
           require_auth jwt_decode us auth_header f st =
             (Inr (401, Error ''Token expired''), st, [])) \<and>
        (jwt_decode token = InvalidTokenError \<longrightarrow>
           require_auth jwt_decode us auth_header f st =
             (Inr (401, Error ''Invalid token''), st, []))))"
proof (intro conjI impI allI)
  assume "auth_header = None \<or> auth_header = Some [] \<or>
      (\<exists>h. auth_header = Some h \<and> \<not> prefix ''Bearer '' h)"
  then show "require_auth jwt_decode us auth_header f st =
       (Inr (401, Error ''No token provided''), st, [])"
    by (auto simp: require_auth_def)
next
  fix h
  assume a: "auth_header = Some h \<and> prefix ''Bearer '' h"
  then obtain token where t: "bearer_token h = Inr token"
    using bearer_token_prefix by blast
  from a have "h \<noteq> []" by auto
  with a t show "\<exists>token. bearer_token h = Inr token \<and>
        (jwt_decode token = ExpiredSignatureError \<longrightarrow>
           require_auth jwt_decode us auth_header f st =
             (Inr (401, Error ''Token expired''), st, [])) \<and>
        (jwt_decode token = InvalidTokenError \<longrightarrow>
           require_auth jwt_decode us auth_header f st =
             (Inr (401, Error ''Invalid token''), st, []))"
    by (simp add: require_auth_def)
qed

theorem require_auth_token_errors_witness:
  "require_auth (decode_as ExpiredSignatureError) users None (delete_resource pdp_down 1)
      initial_store = (Inr (401, Error ''No token provided''), initial_store, []) \<and>
   prefix ''Bearer '' ''Bearer abc'' \<and>
   bearer_token ''Bearer abc'' = Inr ''abc'' \<and>
   require_auth (decode_as ExpiredSignatureError) users (Some ''Bearer abc'')
      (delete_resource pdp_down 1) initial_store =
     (Inr (401, Error ''Token expired''), initial_store, []) \<and>
   require_auth (decode_as InvalidTokenError) users (Some ''Bearer abc'')
      (delete_resource pdp_down 1) initial_store =
     (Inr (401, Error ''Invalid token''), initial_store, [])"
  using require_auth_token_errors [of None "decode_as ExpiredSignatureError" users
      "delete_resource pdp_down 1" initial_store]
    require_auth_token_errors [of "Some ''Bearer abc''" "decode_as ExpiredSignatureError" users
      "delete_resource pdp_down 1" initial_store]
    require_auth_token_errors [of "Some ''Bearer abc''" "decode_as InvalidTokenError" users
      "delete_resource pdp_down 1" initial_store]
  by (simp add: bearer_token_def decode_as_def)

text \<open>
  With the verifier in place, in terms of the token itself: behind a \<^verbatim>\<open>Bearer \<close> header, a
  token signed with the server's key whose numeric expiry is in the past is answered 401
  \<^verbatim>\<open>Token expired\<close>; a token signed with another key, a string that is no token, and a token
  whose claims lack a numeric expiry are answered 401 \<^verbatim>\<open>Invalid token\<close>.
\<close>

lemma require_auth_verify_errors:
  assumes "prefix ''Bearer '' h" and "bearer_token h = Inr token"
  shows
    "(\<forall>t e. segments token = Some t \<and> jwt_signed_with t = key \<and>
         map_of (jwt_claims t) ''exp'' = Some (JNum e) \<and> e < now \<longrightarrow>
         require_auth (verify segments now key) us (Some h) f st =
           (Inr (401, Error ''Token expired''), st, [])) \<and>
     (\<forall>t. segments token = Some t \<and> jwt_signed_with t \<noteq> key \<longrightarrow>
         require_auth (verify segments now key) us (Some h) f st =
           (Inr (401, Error ''Invalid token''), st, [])) \<and>
     (segments token = None \<longrightarrow>
         require_auth (verify segments now key) us (Some h) f st =
           (Inr (401, Error ''Invalid token''), st, [])) \<and>
     (\<forall>t. segments token = Some t \<and> jwt_signed_with t = key \<and>
         (\<forall>e. map_of (jwt_claims t) ''exp'' \<noteq> Some (JNum e)) \<longrightarrow>
         require_auth (verify segments now key) us (Some h) f st =
           (Inr (401, Error ''Invalid token''), st, []))"
proof -
  from assms(1) have ne: "h \<noteq> []" by auto
  have expired: "verify segments now key token = ExpiredSignatureError"
    if "segments token = Some t" "jwt_signed_with t = key"
      "map_of (jwt_claims t) ''exp'' = Some (JNum e)" "e < now" for t e
    using that by (simp add: verify_def)
  have forged: "verify segments now key token = InvalidTokenError"
    if "segments token = Some t" "jwt_signed_with t \<noteq> key" for t
    using that by (simp add: verify_def)
  have garbage: "verify segments now key token = InvalidTokenError"
    if "segments token = None"
    using that by (simp add: verify_def)
  have noexp: "verify segments now key token = InvalidTokenError"
    if "segments token = Some t" "jwt_signed_with t = key"
      "\<forall>e. map_of (jwt_claims t) ''exp'' \<noteq> Some (JNum e)" for t
    using that by (simp add: verify_def split: option.splits json.splits)
  have exp_answer: "require_auth d us (Some h) f st = (Inr (401, Error ''Token expired''), st, [])"
    if "d token = ExpiredSignatureError" for d
    using that assms ne by (simp add: require_auth_def)
  have inv_answer: "require_auth d us (Some h) f st = (Inr (401, Error ''Invalid token''), st, [])"
    if "d token = InvalidTokenError" for d
    using that assms ne by (simp add: require_auth_def)
  show ?thesis
    using expired forged garbage noexp exp_answer inv_answer by blast
qed

text \<open>
  C6. A missing bearer token is answered \<^verbatim>\<open>No token provided\<close>, an expired token with a good
  signature \<^verbatim>\<open>Token expired\<close>, and a bad signature \<^verbatim>\<open>Invalid token\<close> (above). Malformed claims
  are to be answered \<^verbatim>\<open>Invalid token\<close> as well, and they are not always: a token signed with
  the server's key and not yet expired, whose claims have no username, passes the
  verifier, and \<^verbatim>\<open>payload['username']\<close> raises \<^verbatim>\<open>KeyError\<close>, which neither \<^verbatim>\<open>except\<close> clause
  catches; claims whose username is a list make \<^verbatim>\<open>users.get\<close> raise \<^verbatim>\<open>TypeError\<close> the same
  way. The two requests below are made at the time 2000; beside them stand the expired
  and the forged token, answered as the claim says.
\<close>

theorem require_auth_malformed_claims_raise:
  "verify wire 2000 SECRET_KEY ''t.nouser'' =
     Claims [(''tenant'', JStr ''acme''), (''role'', JStr ''admin''), (''exp'', JNum 90000)] \<and>
   require_auth (verify wire 2000 SECRET_KEY) users (Some ''Bearer t.nouser'') list_resources
     initial_store = (Inl KeyError, initial_store, []) \<and>
   require_auth (verify wire 2000 SECRET_KEY) users (Some ''Bearer t.listuser'') list_resources
     initial_store = (Inl TypeError, initial_store, []) \<and>
   require_auth (verify wire 2000 SECRET_KEY) users (Some ''Bearer t.expired'') list_resources
     initial_store = (Inr (401, Error ''Token expired''), initial_store, []) \<and>
   require_auth (verify wire 2000 SECRET_KEY) users (Some ''Bearer t.forged'') list_resources
     initial_store = (Inr (401, Error ''Invalid token''), initial_store, [])"
  by (simp add: require_auth_def bearer_token_def verify_def wire_def SECRET_KEY_def)

text \<open>
  C7. For a token that decodes to claims with a username: when the directory has no user
  under that username, the answer is 401 \<^verbatim>\<open>User not found\<close>, the store is untouched and the
  result does not depend on the wrapped view; when it has one, the result is the wrapped
  view's, run with that user. The lookup is by the string itself.
\<close>

theorem require_auth_principal:
  assumes "prefix ''Bearer '' h"
    and "bearer_token h = Inr token"
    and "jwt_decode token = Claims payload"
    and "map_of payload ''username'' = Some name"
  shows "(users_get us name = Inr None \<longrightarrow>
            require_auth jwt_decode us (Some h) f st =
              (Inr (401, Error ''User not found''), st, [])) \<and>
         (\<forall>g_user. users_get us name = Inr (Some g_user) \<longrightarrow>
            require_auth jwt_decode us (Some h) f st = f g_user st) \<and>
         (\<forall>k. name = JStr k \<longrightarrow> users_get us name = Inr (map_of us k))"
proof -
  from assms(1) have "h \<noteq> []" by auto
  with assms show ?thesis by (simp add: require_auth_def)
qed

theorem require_auth_principal_witness:
  "prefix ''Bearer '' ''Bearer abc'' \<and>
   bearer_token ''Bearer abc'' = Inr ''abc'' \<and>
   map_of (claims_of ''mallory'') ''username'' = Some (JStr ''mallory'') \<and>
   users_get users (JStr ''mallory'') = Inr None \<and>
   require_auth (decode_as (Claims (claims_of ''mallory''))) users (Some ''Bearer abc'')
      (delete_resource (pdp_result (JBool True)) 1) initial_store =
     (Inr (401, Error ''User not found''), initial_store, []) \<and>
   require_auth (decode_as (Claims (claims_of ''alice''))) users (Some ''Bearer abc'')
      (delete_resource (pdp_result (JBool True)) 1) initial_store =
     delete_resource (pdp_result (JBool True)) 1 alice initial_store"
proof -
  have p: "prefix ''Bearer '' ''Bearer abc''" by simp
  have t: "bearer_token ''Bearer abc'' = Inr ''abc''" by (simp add: bearer_token_def)
  have m: "map_of (claims_of ''mallory'') ''username'' = Some (JStr ''mallory'')"
    by (simp add: claims_of_def)
  have a: "map_of (claims_of ''alice'') ''username'' = Some (JStr ''alice'')"
    by (simp add: claims_of_def)
  have um: "users_get users (JStr ''mallory'') = Inr None" by (simp add: users_def)
  have ua: "users_get users (JStr ''alice'') = Inr (Some alice)" by (simp add: users_def)
  have dm: "decode_as (Claims (claims_of ''mallory'')) ''abc'' = Claims (claims_of ''mallory'')"
    by (simp add: decode_as_def)
  have da: "decode_as (Claims (claims_of ''alice'')) ''abc'' = Claims (claims_of ''alice'')"
    by (simp add: decode_as_def)
  from require_auth_principal [where jwt_decode = "decode_as (Claims (claims_of ''mallory''))"
      and us = users and f = "delete_resource (pdp_result (JBool True)) 1"
      and st = initial_store, OF p t dm m] um
  have 1: "require_auth (decode_as (Claims (claims_of ''mallory''))) users (Some ''Bearer abc'')
      (delete_resource (pdp_result (JBool True)) 1) initial_store =
     (Inr (401, Error ''User not found''), initial_store, [])" by blast
  from require_auth_principal [where jwt_decode = "decode_as (Claims (claims_of ''alice''))"
      and us = users and f = "delete_resource (pdp_result (JBool True)) 1"
      and st = initial_store, OF p t da a] ua
  have 2: "require_auth (decode_as (Claims (claims_of ''alice''))) users (Some ''Bearer abc'')
      (delete_resource (pdp_result (JBool True)) 1) initial_store =
     delete_resource (pdp_result (JBool True)) 1 alice initial_store" by blast
  from p t m um 1 2 show ?thesis by blast
qed

section \<open>Updating\<close>

lemma same_but_refl: "list_all2 (same_but i) rs rs"
  by (simp add: list_all2_same same_but_def)

lemma replace_first_frame:
  "find (\<lambda>r. res_id r = i) rs = Some r0 \<Longrightarrow> res_id r' = i \<Longrightarrow> res_tenant r' = res_tenant r0 \<Longrightarrow>
   list_all2 (same_but i) rs (replace_first i r' rs)"
proof (induction rs)
  case Nil
  then show ?case by simp
next
  case (Cons r rs)
  show ?case
  proof (cases "res_id r = i")
    case True
    with Cons.prems have "r0 = r" by simp
    with True Cons.prems have "same_but i r r'" by (simp add: same_but_def)
    with True show ?thesis by (simp add: same_but_refl)
  next
    case False
    then have "same_but i r r" by (simp add: same_but_def)
    with False Cons show ?thesis by simp
  qed
qed

lemma update_resource_absent:
  "find (\<lambda>r. res_id r = i) (resources st) = None \<Longrightarrow>
   update_resource post i data u st = (Inr (404, Error ''Resource not found''), st, [])"
  by (simp add: update_resource_def)

lemma update_resource_raises:
  "find (\<lambda>r. res_id r = i) (resources st) = Some r0 \<Longrightarrow>
   check_opa_permission post u ''update'' (Some r0) = (Inl e, sent) \<Longrightarrow>
   update_resource post i data u st = (Inl e, st, sent)"
  by (simp add: update_resource_def)

lemma update_resource_denied:
  "find (\<lambda>r. res_id r = i) (resources st) = Some r0 \<Longrightarrow>
   check_opa_permission post u ''update'' (Some r0) = (Inr allowed, sent) \<Longrightarrow> \<not> truthy allowed \<Longrightarrow>
   update_resource post i data u st = (Inr (403, Error ''Forbidden''), st, sent)"
  by (simp add: update_resource_def)

lemma update_resource_allowed:
  "find (\<lambda>r. res_id r = i) (resources st) = Some r0 \<Longrightarrow>
   check_opa_permission post u ''update'' (Some r0) = (Inr allowed, sent) \<Longrightarrow> truthy allowed \<Longrightarrow>
   update_resource post i data u st =
     (case assign_if_present data ''name'' (\<lambda>v r. r\<lparr>res_name := v\<rparr>) r0 of
        Inl e \<Rightarrow> (Inl e, st, sent)
      | Inr r1 \<Rightarrow>
          (case assign_if_present data ''type'' (\<lambda>v r. r\<lparr>res_type := v\<rparr>) r1 of
             Inl e \<Rightarrow> (Inl e, st\<lparr>resources := replace_first i r1 (resources st)\<rparr>, sent)
           | Inr r2 \<Rightarrow>
               (Inr (200, Resource r2), st\<lparr>resources := replace_first i r2 (resources st)\<rparr>,
                sent)))"
  by (simp add: update_resource_def)

lemma update_resource_same_but:
  assumes run: "update_resource post i data u st = (res, st', sent)"
  shows "next_resource_id st' = next_resource_id st \<and>
         list_all2 (same_but i) (resources st) (resources st')"
proof (cases "find (\<lambda>r. res_id r = i) (resources st)")
  case None
  from update_resource_absent [OF None, of post data u] run have "st' = st" by simp
  then show ?thesis by (simp add: same_but_refl)
next
  case (Some r0)
  from Some have r0: "res_id r0 = i" using find_id by blast
  obtain x sent0 where chk: "check_opa_permission post u ''update'' (Some r0) = (x, sent0)"
    by (cases "check_opa_permission post u ''update'' (Some r0)") auto
  show ?thesis
  proof (cases x)
    case (Inl e)
    from update_resource_raises [OF Some chk [unfolded Inl], of data] run have "st' = st" by simp
    then show ?thesis by (simp add: same_but_refl)
  next
    case (Inr allowed)
    note chk' = chk [unfolded Inr]
    show ?thesis
    proof (cases "truthy allowed")
      case False
      from update_resource_denied [OF Some chk' False, of data] run have "st' = st" by simp
      then show ?thesis by (simp add: same_but_refl)
    next
      case True
      note eq = update_resource_allowed [OF Some chk' True, of data]
      show ?thesis
      proof (cases "assign_if_present data ''name'' (\<lambda>v r. r\<lparr>res_name := v\<rparr>) r0")
        case (Inl e)
        from eq run have "st' = st" by (simp add: Inl)
        then show ?thesis by (simp add: same_but_refl)
      next
        case n: (Inr r1)
        have r1: "res_id r1 = i \<and> res_tenant r1 = res_tenant r0"
          using assign_if_present_keeps [OF n] r0 by simp
        show ?thesis
        proof (cases "assign_if_present data ''type'' (\<lambda>v r. r\<lparr>res_type := v\<rparr>) r1")
          case (Inl e)
          from eq run have "st' = st\<lparr>resources := replace_first i r1 (resources st)\<rparr>"
            by (simp add: n Inl)
          then show ?thesis using replace_first_frame [OF Some, of r1] r1 by simp
        next
          case t: (Inr r2)
          have r2: "res_id r2 = i \<and> res_tenant r2 = res_tenant r0"
            using assign_if_present_keeps [OF t] r1 by simp
          from eq run have "st' = st\<lparr>resources := replace_first i r2 (resources st)\<rparr>"
            by (simp add: n t)
          then show ?thesis using replace_first_frame [OF Some, of r2] r2 by simp
        qed
      qed
    qed
  qed
qed

text \<open>
  What holds of every update call: \<^verbatim>\<open>update_resource\<close> answers 404 and changes nothing when
  no stored resource has the id, and answers 403 and changes nothing when the permission
  check for the action \<^verbatim>\<open>update\<close> on the found resource returns a value Python takes as
  false. Whatever the call does, the counter stays, the store keeps its length, every
  stored resource keeps its id and its tenant, and a resource with another id is exactly as
  before: only the name and the type of the resource with the id can change.
\<close>

theorem update_resource_frame:
  "(i \<notin> set (map res_id (resources st)) \<longrightarrow>
      update_resource post i data u st = (Inr (404, Error ''Resource not found''), st, [])) \<and>
   (\<forall>r allowed sent.
      find (\<lambda>r. res_id r = i) (resources st) = Some r \<and>
      check_opa_permission post u ''update'' (Some r) = (Inr allowed, sent) \<and> \<not> truthy allowed \<longrightarrow>
      update_resource post i data u st = (Inr (403, Error ''Forbidden''), st, sent)) \<and>
   (\<forall>res st' sent.
      update_resource post i data u st = (res, st', sent) \<longrightarrow>
      next_resource_id st' = next_resource_id st \<and>
      length (resources st') = length (resources st) \<and>
      (\<forall>k < length (resources st).
         res_id (resources st' ! k) = res_id (resources st ! k) \<and>
         res_tenant (resources st' ! k) = res_tenant (resources st ! k) \<and>
         (res_id (resources st ! k) \<noteq> i \<longrightarrow> resources st' ! k = resources st ! k)))"
proof (intro conjI impI allI)
  assume "i \<notin> set (map res_id (resources st))"
  then have "find (\<lambda>r. res_id r = i) (resources st) = None"
    using find_None_ids [of i "resources st"] by simp
  then show "update_resource post i data u st = (Inr (404, Error ''Resource not found''), st, [])"
    by (rule update_resource_absent)
next
  fix r allowed sent
  assume "find (\<lambda>r. res_id r = i) (resources st) = Some r \<and>
      check_opa_permission post u ''update'' (Some r) = (Inr allowed, sent) \<and> \<not> truthy allowed"
  then show "update_resource post i data u st = (Inr (403, Error ''Forbidden''), st, sent)"
    by (blast intro: update_resource_denied)
next
  fix res st' sent
  assume a: "update_resource post i data u st = (res, st', sent)"
  from update_resource_same_but [OF a]
  show "next_resource_id st' = next_resource_id st" by simp
  from update_resource_same_but [OF a]
  show "length (resources st') = length (resources st)"
    by (auto dest: list_all2_lengthD)
  fix k
  assume k: "k < length (resources st)"
  from update_resource_same_but [OF a] k
  have sb: "same_but i (resources st ! k) (resources st' ! k)"
    by (auto dest: list_all2_nthD)
  then show "res_id (resources st' ! k) = res_id (resources st ! k)"
    by (simp add: same_but_def)
  from sb show "res_tenant (resources st' ! k) = res_tenant (resources st ! k)"
    by (simp add: same_but_def)
  assume "res_id (resources st ! k) \<noteq> i"
  with sb show "resources st' ! k = resources st ! k"
    by (simp add: same_but_def)
qed

theorem update_resource_frame_witness:
  "update_resource (pdp_result (JBool True)) 9 (JObj [(''name'', JStr ''Renamed'')])
     alice initial_store = (Inr (404, Error ''Resource not found''), initial_store, []) \<and>
   update_resource (pdp_result (JBool False)) 3 (JObj [(''name'', JStr ''Renamed'')])
     alice initial_store =
     (Inr (403, Error ''Forbidden''), initial_store,
      [JObj [(''input'', input_data alice ''update'' (Some (resources initial_store ! 2)))]]) \<and>
   update_resource (pdp_result (JBool True)) 1
     (JObj [(''name'', JStr ''Renamed''), (''tenant'', JStr ''globex''), (''id'', JNum 9)])
     alice initial_store =
     (Inr (200, Resource \<lparr>res_id = 1, res_tenant = ''acme'', res_name = JStr ''Renamed'',
                          res_type = JStr ''document''\<rparr>),
      initial_store\<lparr>resources :=
        \<lparr>res_id = 1, res_tenant = ''acme'', res_name = JStr ''Renamed'',
          res_type = JStr ''document''\<rparr> # tl (resources initial_store)\<rparr>,
      [JObj [(''input'', input_data alice ''update'' (Some (hd (resources initial_store))))]])"
proof -
  have n: "(9::int) \<notin> set (map res_id (resources initial_store))"
    by (simp add: initial_store_def)
  note absent = update_resource_frame [of 9 initial_store "pdp_result (JBool True)"
      "JObj [(''name'', JStr ''Renamed'')]" alice]
  from absent [THEN conjunct1] n
  have 1: "update_resource (pdp_result (JBool True)) 9 (JObj [(''name'', JStr ''Renamed'')])
     alice initial_store = (Inr (404, Error ''Resource not found''), initial_store, [])"
    by (rule mp)
  have f: "find (\<lambda>r. res_id r = 3) (resources initial_store) = Some (resources initial_store ! 2)"
    by (simp add: initial_store_def)
  have c: "check_opa_permission (pdp_result (JBool False)) alice ''update''
      (Some (resources initial_store ! 2)) =
     (Inr (JBool False),
      [JObj [(''input'', input_data alice ''update'' (Some (resources initial_store ! 2)))]])"
    by (simp add: check_opa_permission_def pdp_result_def Let_def)
  have t: "\<not> truthy (JBool False)" by simp
  note denied = update_resource_frame [of 3 initial_store "pdp_result (JBool False)"
      "JObj [(''name'', JStr ''Renamed'')]" alice]
  note 2 = denied [THEN conjunct2, THEN conjunct1, rule_format, OF conjI [OF f conjI [OF c t]]]
  have 3: "update_resource (pdp_result (JBool True)) 1
     (JObj [(''name'', JStr ''Renamed''), (''tenant'', JStr ''globex''), (''id'', JNum 9)])
     alice initial_store =
     (Inr (200, Resource \<lparr>res_id = 1, res_tenant = ''acme'', res_name = JStr ''Renamed'',
                          res_type = JStr ''document''\<rparr>),
      initial_store\<lparr>resources :=
        \<lparr>res_id = 1, res_tenant = ''acme'', res_name = JStr ''Renamed'',
          res_type = JStr ''document''\<rparr> # tl (resources initial_store)\<rparr>,
      [JObj [(''input'', input_data alice ''update'' (Some (hd (resources initial_store))))]])"
    by (simp add: update_resource_def check_opa_permission_def pdp_result_def Let_def
        initial_store_def assign_if_present_def)
  show ?thesis by (rule conjI [OF 1 conjI [OF 2 3]])
qed

text \<open>
  C8. An update is to change only the name and the type of the one resource, to fail with
  NotFound when the id is absent, and to fail with Forbidden whenever the decision for the
  action \<^verbatim>\<open>update\<close> is not true. The frame and NotFound hold (above); Forbidden does not
  always. For \<^verbatim>\<open>bob\<close> renaming resource 1: when the PDP answers \<^verbatim>\<open>{"result": "no"}\<close> the
  decision is the string \<^verbatim>\<open>'no'\<close>, not \<^verbatim>\<open>True\<close>, and the view answers 200 with the rename
  applied; when the PDP answers 200 with the body \<^verbatim>\<open>[]\<close> there is no decision at all and the
  view raises \<^verbatim>\<open>AttributeError\<close> with the store as it was.
\<close>

theorem update_resource_non_boolean_decision:
  "fst (check_opa_permission (pdp_result (JStr ''no'')) bob ''update''
          (Some (hd (resources initial_store)))) = Inr (JStr ''no'') \<and>
   JStr ''no'' \<noteq> JBool True \<and>
   update_resource (pdp_result (JStr ''no'')) 1 (JObj [(''name'', JStr ''Renamed'')]) bob
     initial_store =
     (Inr (200, Resource \<lparr>res_id = 1, res_tenant = ''acme'', res_name = JStr ''Renamed'',
                          res_type = JStr ''document''\<rparr>),
      initial_store\<lparr>resources :=
        \<lparr>res_id = 1, res_tenant = ''acme'', res_name = JStr ''Renamed'',
          res_type = JStr ''document''\<rparr> # tl (resources initial_store)\<rparr>,
      [JObj [(''input'', input_data bob ''update'' (Some (hd (resources initial_store))))]]) \<and>
   update_resource (pdp_body (JArr [])) 1 (JObj [(''name'', JStr ''Renamed'')]) bob
     initial_store =
     (Inl AttributeError, initial_store,
      [JObj [(''input'', input_data bob ''update'' (Some (hd (resources initial_store))))]])"
  by (simp add: update_resource_def check_opa_permission_def pdp_result_def pdp_body_def Let_def
      initial_store_def assign_if_present_def)

section \<open>Reading one tenant\<close>

text \<open>
  C9. \<^verbatim>\<open>get_tenant\<close> always answers, leaves the store alone and posts nothing to the PDP.
  The status is 404 exactly when the tenant table has no entry under the requested id, 403
  exactly when it has one and the caller is neither superadmin nor of that tenant, and 200
  otherwise. The lookup comes first, so for every caller the answer for an existing tenant
  id differs from the answer for an id that does not exist.
\<close>

theorem get_tenant_status:
  "\<exists>code b. get_tenant ts tid u st = (Inr (code, b), st, []) \<and>
     (code = 404 \<longleftrightarrow> map_of ts tid = None) \<and>
     (code = 403 \<longleftrightarrow>
        map_of ts tid \<noteq> None \<and> user_role u \<noteq> ''superadmin'' \<and> user_tenant u \<noteq> tid) \<and>
     (code = 200 \<longleftrightarrow>
        map_of ts tid \<noteq> None \<and> (user_role u = ''superadmin'' \<or> user_tenant u = tid)) \<and>
     (\<forall>other. map_of ts tid \<noteq> None \<and> map_of ts other = None \<longrightarrow>
        fst (get_tenant ts tid u st) \<noteq> fst (get_tenant ts other u st))"
  by (auto simp: get_tenant_def split: option.splits)

theorem get_tenant_status_witness:
  "map_of tenants ''globex'' \<noteq> None \<and> map_of tenants ''initech'' = None \<and>
   user_role bob \<noteq> ''superadmin'' \<and> user_tenant bob \<noteq> ''globex'' \<and>
   get_tenant tenants ''globex'' bob initial_store =
     (Inr (403, Error ''Forbidden''), initial_store, []) \<and>
   get_tenant tenants ''initech'' bob initial_store =
     (Inr (404, Error ''Tenant not found''), initial_store, []) \<and>
   fst (get_tenant tenants ''globex'' bob initial_store) \<noteq>
     fst (get_tenant tenants ''initech'' bob initial_store)"
  using get_tenant_status [of tenants "''globex''" bob initial_store]
    get_tenant_status [of tenants "''initech''" bob initial_store]
  by (simp add: get_tenant_def tenants_def bob_def)

section \<open>Login\<close>

text \<open>
  C10. When the body names an existing user and has no password, or a null one, \<^verbatim>\<open>login\<close>
  does not answer at all: \<^verbatim>\<open>password.encode()\<close> raises \<^verbatim>\<open>AttributeError\<close>, which nothing
  catches. A 401 answer is always \<^verbatim>\<open>Invalid credentials\<close> and is given only for a body that
  is a JSON object in which either the username finds no user, or the username finds a user
  and the password is a string whose digest differs from the stored one.
\<close>

theorem login_missing_password:
  "(\<forall>kvs name u.
      data = JObj kvs \<and> map_of kvs ''username'' = Some (JStr name) \<and> map_of us name = Some u \<and>
      (map_of kvs ''password'' = None \<or> map_of kvs ''password'' = Some JNull) \<longrightarrow>
      login jwt_encode now us data = Inl AttributeError) \<and>
   (\<forall>b. login jwt_encode now us data = Inr (401, b) \<longrightarrow>
      b = Error ''Invalid credentials'' \<and>
      (\<exists>kvs username.
         data = JObj kvs \<and> py_get data ''username'' JNull = Inr username \<and>
         (users_get us username = Inr None \<or>
          (\<exists>u s. users_get us username = Inr (Some u) \<and>
                 map_of kvs ''password'' = Some (JStr s) \<and>
                 user_password u \<noteq> Sha256_hex s))))"
proof (intro conjI impI allI)
  fix kvs name u
  assume "data = JObj kvs \<and> map_of kvs ''username'' = Some (JStr name) \<and> map_of us name = Some u \<and>
      (map_of kvs ''password'' = None \<or> map_of kvs ''password'' = Some JNull)"
  then show "login jwt_encode now us data = Inl AttributeError"
    by (auto simp: login_def)
next
  fix b
  assume a: "login jwt_encode now us data = Inr (401, b)"
  then obtain kvs where d: "data = JObj kvs"
    by (cases data) (simp_all add: login_def)
  from a show "b = Error ''Invalid credentials''"
    by (auto simp: login_def d split: sum.splits option.splits if_splits)
  from a show "\<exists>kvs username.
         data = JObj kvs \<and> py_get data ''username'' JNull = Inr username \<and>
         (users_get us username = Inr None \<or>
          (\<exists>u s. users_get us username = Inr (Some u) \<and>
                 map_of kvs ''password'' = Some (JStr s) \<and>
                 user_password u \<noteq> Sha256_hex s))"
    unfolding d login_def
    by (auto split: sum.splits option.splits if_splits elim!: sha256_hexdigest.elims)
qed

theorem login_missing_password_witness:
  "map_of [(''username'', JStr ''alice'')] ''username'' = Some (JStr ''alice'') \<and>
   map_of users ''alice'' = Some alice \<and>
   map_of [(''username'', JStr ''alice'')] ''password'' = None \<and>
   login encode_plain 0 users (JObj [(''username'', JStr ''alice'')]) = Inl AttributeError \<and>
   login encode_plain 0 users (JObj [(''username'', JStr ''alice''), (''password'', JNull)]) =
     Inl AttributeError \<and>
   login encode_plain 0 users
     (JObj [(''username'', JStr ''alice''), (''password'', JStr ''guess'')]) =
     Inr (401, Error ''Invalid credentials'') \<and>
   login encode_plain 0 users (JObj [(''username'', JStr ''mallory'')]) =
     Inr (401, Error ''Invalid credentials'')"
  using login_missing_password [of "JObj [(''username'', JStr ''alice'')]" users encode_plain 0]
    login_missing_password [of "JObj [(''username'', JStr ''alice''), (''password'', JNull)]"
      users encode_plain 0]
  by (simp add: login_def users_def alice_def)

end
